theory Spec2Isabelle
  imports Main
begin

section \<open>Profile tables\<close>

text \<open>
  The notebook \<^verbatim>\<open>notebooks/0.download-data/2.preprocessing.ipynb\<close> defines one
  function, \<^verbatim>\<open>load_and_concat_profiles\<close>, with the inner helper
  \<^verbatim>\<open>load_profile\<close>. Both work on polars data frames read from parquet files.

  A data frame is a list of named, typed columns. The cell type \<open>'v\<close> and the type of
  column data types \<open>'t\<close> stay abstract: the loader never inspects a cell.
\<close>

datatype ('t, 'v) series = Series (name: string) (dtype: 't) (vals: "'v list")

type_synonym ('t, 'v) dataframe = "('t, 'v) series list"

definition columns :: "('t, 'v) dataframe \<Rightarrow> string list" where
  "columns df = map name df"




text \<open>The exceptions the function can end with, each with the text or name it carries.\<close>

datatype error =
    TypeError string
  | FileNotFoundError string
  | ComputeError string
  | ColumnNotFoundError string
  | DuplicateError string
  | ShapeError
  | SchemaError
  | ValueError string

section \<open>The environment: arguments and files\<close>

text \<open>
  Python checks argument types at run time, so an argument is an object that may be a
  \<^verbatim>\<open>str\<close>, a \<^verbatim>\<open>pathlib.Path\<close> or anything else; \<^verbatim>\<open>specific_plates\<close>
  may be a list of objects or some other object. A path is written as its string form,
  and a \<^verbatim>\<open>str\<close> is taken in the form \<^verbatim>\<open>pathlib\<close> prints it.
\<close>

datatype pyobj = PyStr string | PyPath string | PyOther

datatype pyseq = PyList "pyobj list" | NotAList

text \<open>
  A path names nothing, a file or a directory. A file holds a parquet table or other
  bytes; a directory lists the names of its entries in the order the system reports them.
\<close>

datatype ('t, 'v) content = Parquet "('t, 'v) dataframe" | NotParquet

datatype ('t, 'v) node = File "('t, 'v) content" | Dir "string list"

type_synonym ('t, 'v) filesystem = "string \<Rightarrow> ('t, 'v) node option"

text \<open>\<^verbatim>\<open>Path.exists()\<close>: true of files and of directories.\<close>

definition exists :: "('t, 'v) filesystem \<Rightarrow> string \<Rightarrow> bool" where
  "exists fs p \<longleftrightarrow> fs p \<noteq> None"

definition endswith :: "string \<Rightarrow> string \<Rightarrow> bool" where
  "endswith s suf \<longleftrightarrow> length suf \<le> length s \<and> drop (length s - length suf) s = suf"

definition joinpath :: "string \<Rightarrow> string \<Rightarrow> string" where
  "joinpath d n = d @ ''/'' @ n"

text \<open>
  \<^verbatim>\<open>profile_dir.glob("*.parquet")\<close>: the entries directly under the directory whose
  name matches the pattern, in directory order; nothing when the path is no directory.
\<close>

definition glob_parquet :: "('t, 'v) filesystem \<Rightarrow> string \<Rightarrow> string list" where
  "glob_parquet fs d =
     (case fs d of
        Some (Dir entries) \<Rightarrow> map (joinpath d) (filter (\<lambda>n. endswith n ''.parquet'') entries)
      | _ \<Rightarrow> [])"

section \<open>The polars operations the loader calls\<close>

text \<open>
  \<^verbatim>\<open>pl.read_parquet(file)\<close> gives the table stored in a parquet file and raises on
  a missing path and on a file of other content. Reading a directory as a dataset is left
  out: a directory stands as an error here.
\<close>

definition read_parquet :: "('t, 'v) filesystem \<Rightarrow> string \<Rightarrow> error + ('t, 'v) dataframe" where
  "read_parquet fs file =
     (case fs file of
        None \<Rightarrow> Inl (FileNotFoundError file)
      | Some (Dir _) \<Rightarrow> Inl (ComputeError file)
      | Some (File NotParquet) \<Rightarrow> Inl (ComputeError file)
      | Some (File (Parquet df)) \<Rightarrow> Inr df)"

text \<open>
  Two things about polars are not fixed by the notebook and are parameters of the model.
  The first is the regular-expression engine: \<open>regex pl p\<close> is the compiled pattern
  \<open>p\<close> as a predicate on column names, or \<open>None\<close> when \<open>p\<close> is no valid
  pattern. The second is the order of the two checks of a projection, which differs
  between polars releases: \<open>InOrder\<close> takes the names one by one, looks each up and
  then checks it against the names already taken; \<open>MissingFirst\<close> looks all names up
  before any name is checked for repetition.
\<close>

datatype resolution = InOrder | MissingFirst

datatype polars =
  Polars (regex: "string \<Rightarrow> (string \<Rightarrow> bool) option") (resolution: resolution)

text \<open>
  \<^verbatim>\<open>df.select(names)\<close> with a list of strings. Each string is parsed as
  \<^verbatim>\<open>pl.col(name)\<close>: the string \<^verbatim>\<open>*\<close> stands for all columns, a string that
  starts with \<^verbatim>\<open>^\<close> and ends with \<^verbatim>\<open>$\<close> is a regular expression and stands
  for the columns whose names it matches (in frame order, possibly none), any other
  string is the name of one column.
\<close>

definition is_regex_name :: "string \<Rightarrow> bool" where
  "is_regex_name n \<longleftrightarrow> n \<noteq> [] \<and> hd n = CHR ''^'' \<and> last n = CHR ''$''"

definition plain_name :: "string \<Rightarrow> bool" where
  "plain_name n \<longleftrightarrow> n \<noteq> ''*'' \<and> \<not> is_regex_name n"

definition expand_name :: "polars \<Rightarrow> string list \<Rightarrow> string \<Rightarrow> error + string list" where
  "expand_name pl cols n =
     (if n = ''*'' then Inr cols
      else if is_regex_name n then
        (case regex pl n of
           None \<Rightarrow> Inl (ComputeError n)
         | Some matches \<Rightarrow> Inr (filter matches cols))
      else Inr [n])"

fun expand_names :: "polars \<Rightarrow> string list \<Rightarrow> string list \<Rightarrow> error + string list" where
  "expand_names pl cols [] = Inr []"
| "expand_names pl cols (n # ns) =
     (case expand_name pl cols n of
        Inl e \<Rightarrow> Inl e
      | Inr xs \<Rightarrow>
          (case expand_names pl cols ns of
             Inl e \<Rightarrow> Inl e
           | Inr ys \<Rightarrow> Inr (xs @ ys)))"

text \<open>
  The expanded names are then resolved against the frame. A name the frame does not have
  raises \<^verbatim>\<open>ColumnNotFoundError\<close>, a name taken twice raises
  \<^verbatim>\<open>DuplicateError\<close>; both carry the column name and nothing about where the frame
  came from. The second argument of \<open>select_from\<close> is the list of names already taken.
\<close>

fun select_from :: "('t, 'v) dataframe \<Rightarrow> string list \<Rightarrow> string list \<Rightarrow> error + ('t, 'v) dataframe" where
  "select_from df seen [] = Inr []"
| "select_from df seen (n # ns) =
     (case find (\<lambda>s. name s = n) df of
        None \<Rightarrow> Inl (ColumnNotFoundError n)
      | Some s \<Rightarrow>
          if n \<in> set seen then Inl (DuplicateError n)
          else (case select_from df (n # seen) ns of
                  Inl e \<Rightarrow> Inl e
                | Inr rest \<Rightarrow> Inr (s # rest)))"

fun resolve_names ::
  "resolution \<Rightarrow> ('t, 'v) dataframe \<Rightarrow> string list \<Rightarrow> error + ('t, 'v) dataframe" where
  "resolve_names InOrder df ns = select_from df [] ns"
| "resolve_names MissingFirst df ns =
     (case find (\<lambda>n. n \<notin> set (columns df)) ns of
        Some c \<Rightarrow> Inl (ColumnNotFoundError c)
      | None \<Rightarrow> select_from df [] ns)"

definition select :: "polars \<Rightarrow> ('t, 'v) dataframe \<Rightarrow> string list \<Rightarrow> error + ('t, 'v) dataframe" where
  "select pl df names =
     (case expand_names pl (columns df) names of
        Inl e \<Rightarrow> Inl e
      | Inr expanded \<Rightarrow> resolve_names (resolution pl) df expanded)"

text \<open>
  \<^verbatim>\<open>pl.concat(items, rechunk=True)\<close> with the default vertical strategy. An empty
  list raises \<^verbatim>\<open>ValueError\<close>. Otherwise polars starts from the first frame emptied
  of its rows and stacks every frame onto it, the first included, with
  \<^verbatim>\<open>vstack\<close>. Stacking onto a frame of another width is a shape error, unless the
  frame stacked onto has no columns at all: then it is replaced by the other frame.
  With equal widths the columns are extended pair by pair, and a pair must agree in name
  and in data type. \<^verbatim>\<open>rechunk\<close> changes the memory layout only.
\<close>

fun vstack_columns :: "('t, 'v) dataframe \<Rightarrow> ('t, 'v) dataframe \<Rightarrow> error + ('t, 'v) dataframe" where
  "vstack_columns (l # ls) (r # rs) =
     (if name l \<noteq> name r then Inl ShapeError
      else if dtype l \<noteq> dtype r then Inl SchemaError
      else (case vstack_columns ls rs of
              Inl e \<Rightarrow> Inl e
            | Inr cs \<Rightarrow> Inr (Series (name l) (dtype l) (vals l @ vals r) # cs)))"
| "vstack_columns _ _ = Inr []"

definition vstack :: "('t, 'v) dataframe \<Rightarrow> ('t, 'v) dataframe \<Rightarrow> error + ('t, 'v) dataframe" where
  "vstack df other =
     (if length df \<noteq> length other
      then (if length df = 0 then Inr other else Inl ShapeError)
      else vstack_columns df other)"

fun vstack_all :: "('t, 'v) dataframe \<Rightarrow> ('t, 'v) dataframe list \<Rightarrow> error + ('t, 'v) dataframe" where
  "vstack_all acc [] = Inr acc"
| "vstack_all acc (d # ds) =
     (case vstack acc d of Inl e \<Rightarrow> Inl e | Inr acc' \<Rightarrow> vstack_all acc' ds)"

definition clear :: "('t, 'v) dataframe \<Rightarrow> ('t, 'v) dataframe" where
  "clear df = map (\<lambda>s. Series (name s) (dtype s) []) df"

definition pl_concat :: "('t, 'v) dataframe list \<Rightarrow> error + ('t, 'v) dataframe" where
  "pl_concat items =
     (case items of
        [] \<Rightarrow> Inl (ValueError ''cannot concat empty list'')
      | first # rest \<Rightarrow> vstack_all (clear first) (first # rest))"

section \<open>Column classification\<close>

text \<open>
  Modelled from the spec: \<^verbatim>\<open>split_meta_and_features\<close> is imported from
  \<^verbatim>\<open>utils.utils\<close>, which is not among the sources. The specification says that the
  columns of a table fall into two disjoint, exhaustive classes, decided per table by
  inspecting the column names with one predicate applied uniformly. The predicate itself
  (the naming convention) is a parameter.
\<close>

definition split_meta_and_features ::
  "(string \<Rightarrow> bool) \<Rightarrow> ('t, 'v) dataframe \<Rightarrow> string list \<times> string list" where
  "split_meta_and_features is_meta df =
     (filter is_meta (columns df), filter (\<lambda>c. \<not> is_meta c) (columns df))"

section \<open>The loader\<close>

text \<open>
  Reading a file is the one effect of the loader. The state threaded through it is the
  list of paths handed to \<^verbatim>\<open>pl.read_parquet\<close> so far, oldest first.
\<close>

type_synonym reads = "string list"

definition load_profile ::
  "polars \<Rightarrow> (string \<Rightarrow> bool) \<Rightarrow> ('t, 'v) filesystem \<Rightarrow> string list option \<Rightarrow> string \<Rightarrow> reads
     \<Rightarrow> (error + ('t, 'v) dataframe) \<times> reads" where
  "load_profile pl is_meta fs shared_features file log =
     (case read_parquet fs file of
        Inl e \<Rightarrow> (Inl e, log @ [file])
      | Inr profile_df \<Rightarrow>
          (case split_meta_and_features is_meta profile_df of
             (meta_cols, _) \<Rightarrow>
               (case shared_features of
                  Some sf \<Rightarrow> (select pl profile_df (meta_cols @ sf), log @ [file])
                | None \<Rightarrow> (Inr profile_df, log @ [file]))))"

text \<open>The comprehension \<^verbatim>\<open>[load_profile(f) for f in files_to_load]\<close>: in list order,
  ending at the first exception.\<close>

fun load_profiles ::
  "polars \<Rightarrow> (string \<Rightarrow> bool) \<Rightarrow> ('t, 'v) filesystem \<Rightarrow> string list option \<Rightarrow> string list \<Rightarrow> reads
     \<Rightarrow> (error + ('t, 'v) dataframe list) \<times> reads" where
  "load_profiles pl is_meta fs shared_features [] log = (Inr [], log)"
| "load_profiles pl is_meta fs shared_features (f # files) log =
     (case load_profile pl is_meta fs shared_features f log of
        (Inl e, log') \<Rightarrow> (Inl e, log')
      | (Inr df, log') \<Rightarrow>
          (case load_profiles pl is_meta fs shared_features files log' of
             (Inl e, log'') \<Rightarrow> (Inl e, log'')
           | (Inr dfs, log'') \<Rightarrow> (Inr (df # dfs), log'')))"

text \<open>The first type check: a \<^verbatim>\<open>str\<close> is turned into a path, a path is kept.\<close>

fun as_path :: "pyobj \<Rightarrow> error + string" where
  "as_path (PyStr s) = Inr s"
| "as_path (PyPath p) = Inr p"
| "as_path PyOther = Inl (TypeError ''profile_dir must be a string or a pathlib.Path object'')"

text \<open>The second type check: a list, and every element of it a path.\<close>

fun path_elements :: "pyobj list \<Rightarrow> string list option" where
  "path_elements [] = Some []"
| "path_elements (PyPath p # xs) = map_option ((#) p) (path_elements xs)"
| "path_elements (_ # xs) = None"

fun validate_plates :: "pyseq option \<Rightarrow> error + string list option" where
  "validate_plates None = Inr None"
| "validate_plates (Some NotAList) =
     Inl (TypeError ''specific_plates must be a list of pathlib.Path objects'')"
| "validate_plates (Some (PyList xs)) =
     (case path_elements xs of
        None \<Rightarrow> Inl (TypeError ''All elements in specific_plates must be pathlib.Path objects'')
      | Some ps \<Rightarrow> Inr (Some ps))"

text \<open>The existence loop over the explicit list: the first missing path raises.\<close>

fun check_exists :: "('t, 'v) filesystem \<Rightarrow> string list \<Rightarrow> error option" where
  "check_exists fs [] = None"
| "check_exists fs (plate_path # rest) =
     (if \<not> exists fs plate_path
      then Some (FileNotFoundError (''Profile file not found: '' @ plate_path))
      else check_exists fs rest)"

definition files_to_load ::
  "('t, 'v) filesystem \<Rightarrow> string \<Rightarrow> string list option \<Rightarrow> error + string list" where
  "files_to_load fs profile_dir specific_plates =
     (case specific_plates of
        Some plates \<Rightarrow>
          (case check_exists fs plates of Some e \<Rightarrow> Inl e | None \<Rightarrow> Inr plates)
      | None \<Rightarrow>
          (let found = glob_parquet fs profile_dir
           in if found = []
              then Inl (FileNotFoundError (''No profile files found in '' @ profile_dir))
              else Inr found))"

definition load_and_concat_profiles ::
  "polars \<Rightarrow> (string \<Rightarrow> bool) \<Rightarrow> ('t, 'v) filesystem \<Rightarrow> pyobj \<Rightarrow> string list option \<Rightarrow> pyseq option
     \<Rightarrow> reads \<Rightarrow> (error + ('t, 'v) dataframe) \<times> reads" where
  "load_and_concat_profiles pl is_meta fs profile_dir shared_features specific_plates log =
     (case as_path profile_dir of
        Inl e \<Rightarrow> (Inl e, log)
      | Inr dir \<Rightarrow>
          (case validate_plates specific_plates of
             Inl e \<Rightarrow> (Inl e, log)
           | Inr plates \<Rightarrow>
               (case files_to_load fs dir plates of
                  Inl e \<Rightarrow> (Inl e, log)
                | Inr files \<Rightarrow>
                    (case load_profiles pl is_meta fs shared_features files log of
                       (Inl e, log') \<Rightarrow> (Inl e, log')
                     | (Inr loaded_profiles, log') \<Rightarrow> (pl_concat loaded_profiles, log')))))"

text \<open>
  What \<^verbatim>\<open>load_profile\<close> returns for a file, apart from the record of the read.
\<close>

definition profile_of ::
  "polars \<Rightarrow> (string \<Rightarrow> bool) \<Rightarrow> ('t, 'v) filesystem \<Rightarrow> string list option \<Rightarrow> string
     \<Rightarrow> error + ('t, 'v) dataframe" where
  "profile_of pl im fs sf f = fst (load_profile pl im fs sf f [])"

section \<open>A small directory of plates\<close>

text \<open>
  Two plates with the same four columns (three and two rows), a third plate with other
  columns, a plate with a feature column only and a plate with a column whose name has
  the form of a pattern. Two naming conventions: a metadata column starts with
  \<^verbatim>\<open>Metadata_\<close>, or a metadata column is one that does not start with
  \<^verbatim>\<open>Feature_\<close>.

  The example engine answers for the patterns \<^verbatim>\<open>^w$\<close> in which \<open>w\<close> has no
  character special to regular expressions: such a pattern matches the name \<open>w\<close> and
  no other. The examples use no other pattern.
\<close>

definition literal_regex :: "string \<Rightarrow> (string \<Rightarrow> bool) option" where
  "literal_regex p = Some (\<lambda>n. p = ''^'' @ n @ ''$'')"

definition example_pl :: polars where
  "example_pl = Polars literal_regex InOrder"

definition older_pl :: polars where
  "older_pl = Polars literal_regex MissingFirst"

definition is_not_feature_name :: "string \<Rightarrow> bool" where
  "is_not_feature_name c \<longleftrightarrow> take 8 c \<noteq> ''Feature_''"

definition is_metadata_name :: "string \<Rightarrow> bool" where
  "is_metadata_name c \<longleftrightarrow> take 9 c = ''Metadata_''"

definition P1 :: "(string, int) dataframe" where
  "P1 = [Series ''Metadata_Plate'' ''str'' [1, 1, 1],
         Series ''Metadata_Well'' ''str'' [1, 2, 3],
         Series ''Feature_1'' ''f64'' [10, 11, 12],
         Series ''Feature_2'' ''f64'' [20, 21, 22]]"

definition P2 :: "(string, int) dataframe" where
  "P2 = [Series ''Metadata_Plate'' ''str'' [2, 2],
         Series ''Metadata_Well'' ''str'' [1, 2],
         Series ''Feature_1'' ''f64'' [13, 14],
         Series ''Feature_2'' ''f64'' [23, 24]]"

definition P3 :: "(string, int) dataframe" where
  "P3 = [Series ''Metadata_Plate'' ''str'' [3],
         Series ''Feature_1'' ''f64'' [15]]"

definition P4 :: "(string, int) dataframe" where
  "P4 = [Series ''Feature_1'' ''f64'' [16, 17]]"

definition P5 :: "(string, int) dataframe" where
  "P5 = [Series ''^zz$'' ''str'' [5], Series ''Feature_1'' ''f64'' [18]]"

definition example_fs :: "(string, int) filesystem" where
  "example_fs = map_of
     [(''data'', Dir [''P1.parquet'', ''notes.txt'', ''P2.parquet'']),
      (''data/P1.parquet'', File (Parquet P1)),
      (''data/P2.parquet'', File (Parquet P2)),
      (''data/notes.txt'', File NotParquet),
      (''other/P3.parquet'', File (Parquet P3)),
      (''other/P4.parquet'', File (Parquet P4)),
      (''other/P5.parquet'', File (Parquet P5)),
      (''empty'', Dir [])]"

section \<open>Properties of the loading loop\<close>

lemma load_profile_log:
  "load_profile pl im fs sf f log = (profile_of pl im fs sf f, log @ [f])"
  by (simp add: profile_of_def load_profile_def split: sum.splits option.splits prod.splits)

lemma load_profiles_Cons:
  "load_profiles pl im fs sf (f # files) log =
     (case profile_of pl im fs sf f of
        Inl e \<Rightarrow> (Inl e, log @ [f])
      | Inr df \<Rightarrow>
          (case load_profiles pl im fs sf files (log @ [f]) of
             (Inl e, l) \<Rightarrow> (Inl e, l)
           | (Inr dfs, l) \<Rightarrow> (Inr (df # dfs), l)))"
  by (simp add: load_profile_log)

lemma load_profiles_ok_iff:
  "fst (load_profiles pl im fs sf files log) = Inr dfs \<longleftrightarrow>
     map (profile_of pl im fs sf) files = map Inr dfs"
proof (induction files arbitrary: log dfs)
  case Nil
  show ?case by auto
next
  case (Cons f files)
  show ?case
    by (cases "profile_of pl im fs sf f";
        cases "load_profiles pl im fs sf files (log @ [f])";
        cases "fst (load_profiles pl im fs sf files (log @ [f]))")
       (use Cons.IH [of "log @ [f]"] in \<open>auto simp: load_profiles_Cons Cons_eq_map_conv simp del: load_profiles.simps(2)\<close>)
qed



lemma load_profiles_first_failure:
  assumes "fst (load_profiles pl im fs sf pre log) = Inr dfs"
    and "profile_of pl im fs sf f = Inl e"
  shows "load_profiles pl im fs sf (pre @ f # post) log = (Inl e, log @ pre @ [f])"
  using assms
proof (induction pre arbitrary: log dfs)
  case Nil
  then show ?case by (simp add: load_profiles_Cons del: load_profiles.simps(2))
next
  case (Cons g pre)
  from Cons.prems show ?case
    by (cases "profile_of pl im fs sf g";
        cases "load_profiles pl im fs sf pre (log @ [g])";
        cases "fst (load_profiles pl im fs sf pre (log @ [g]))")
       (use Cons.IH [of "log @ [g]"] in \<open>auto simp: load_profiles_Cons simp del: load_profiles.simps(2)\<close>)
qed

lemma load_profiles_some_failure:
  assumes "f \<in> set files" and "profile_of pl im fs sf f = Inl e"
  shows "\<exists>e'. fst (load_profiles pl im fs sf files log) = Inl e'"
proof (cases "fst (load_profiles pl im fs sf files log)")
  case (Inl a)
  then show ?thesis by blast
next
  case (Inr dfs)
  then have "map (profile_of pl im fs sf) files = map Inr dfs"
    by (simp add: load_profiles_ok_iff)
  then have "profile_of pl im fs sf f \<in> set (map Inr dfs)"
    using assms(1) by (metis image_eqI list.set_map)
  with assms show ?thesis by auto
qed

lemma check_exists_None: "check_exists fs ps = None \<longleftrightarrow> (\<forall>p \<in> set ps. exists fs p)"
  by (induction ps) auto

lemma check_exists_Some:
  "\<exists>p \<in> set ps. \<not> exists fs p \<Longrightarrow>
   \<exists>pre q post. ps = pre @ q # post \<and> (\<forall>x \<in> set pre. exists fs x) \<and> \<not> exists fs q \<and>
      check_exists fs ps = Some (FileNotFoundError (''Profile file not found: '' @ q))"
proof (induction ps)
  case Nil
  then show ?case by simp
next
  case (Cons p ps)
  show ?case
  proof (cases "exists fs p")
    case False
    then have "p # ps = [] @ p # ps \<and> (\<forall>x \<in> set []. exists fs x) \<and> \<not> exists fs p \<and>
      check_exists fs (p # ps) = Some (FileNotFoundError (''Profile file not found: '' @ p))"
      by simp
    then show ?thesis by blast
  next
    case True
    with Cons.prems have "\<exists>p \<in> set ps. \<not> exists fs p" by auto
    from Cons.IH [OF this] obtain pre q post where
      h: "ps = pre @ q # post" "\<forall>x \<in> set pre. exists fs x" "\<not> exists fs q"
         "check_exists fs ps = Some (FileNotFoundError (''Profile file not found: '' @ q))"
      by blast
    with True have "p # ps = (p # pre) @ q # post \<and> (\<forall>x \<in> set (p # pre). exists fs x) \<and> \<not> exists fs q \<and>
      check_exists fs (p # ps) = Some (FileNotFoundError (''Profile file not found: '' @ q))"
      by simp
    then show ?thesis by blast
  qed
qed

section \<open>Properties of selection and stacking\<close>

lemma find_name_None: "find (\<lambda>s. name s = n) df = None \<longleftrightarrow> n \<notin> set (columns df)"
  by (auto simp: find_None_iff columns_def)

lemma find_name_Some: "find (\<lambda>s. name s = n) df = Some s \<Longrightarrow> s \<in> set df \<and> name s = n"
  by (auto simp: find_Some_iff)

lemma find_name_present:
  "n \<in> set (columns df) \<Longrightarrow> \<exists>s. find (\<lambda>s. name s = n) df = Some s"
  by (cases "find (\<lambda>s. name s = n) df") (simp_all add: find_name_None)


lemma select_from_ok:
  "select_from df seen ns = Inr out \<Longrightarrow>
     columns out = ns \<and> set out \<subseteq> set df \<and> distinct ns \<and> set ns \<inter> set seen = {} \<and>
     set ns \<subseteq> set (columns df)"
proof (induction ns arbitrary: seen out)
  case Nil
  then show ?case by (simp add: columns_def)
next
  case (Cons n ns)
  from Cons.prems obtain s rest where
    s: "find (\<lambda>s. name s = n) df = Some s" and n: "n \<notin> set seen"
    and rest: "select_from df (n # seen) ns = Inr rest" and out: "out = s # rest"
    by (auto split: option.splits if_splits sum.splits)
  from Cons.IH [OF rest] find_name_Some [OF s] n out show ?case
    by (auto simp: columns_def)
qed




lemma select_from_duplicate:
  assumes "set ns \<subseteq> set (columns df)" and "\<not> (distinct ns \<and> set ns \<inter> set seen = {})"
  shows "\<exists>d \<in> set ns. (d \<in> set seen \<or> 2 \<le> count_list ns d) \<and>
           select_from df seen ns = Inl (DuplicateError d)"
  using assms
proof (induction ns arbitrary: seen)
  case Nil
  then show ?case by simp
next
  case (Cons n ns)
  from Cons.prems obtain s where s: "find (\<lambda>s. name s = n) df = Some s"
    using find_name_present [of n df] by auto
  show ?case
  proof (cases "n \<in> set seen")
    case True
    with s show ?thesis by simp
  next
    case False
    with Cons.prems have "\<not> (distinct ns \<and> set ns \<inter> set (n # seen) = {})" by auto
    moreover from Cons.prems have "set ns \<subseteq> set (columns df)" by simp
    ultimately obtain d where d: "d \<in> set ns" "d \<in> set (n # seen) \<or> 2 \<le> count_list ns d"
      "select_from df (n # seen) ns = Inl (DuplicateError d)"
      using Cons.IH [of "n # seen"] by blast
    have "d \<in> set seen \<or> 2 \<le> count_list (n # ns) d"
    proof (cases "d = n")
      case True
      with d(1) have "count_list ns d \<noteq> 0" by (simp add: count_list_0_iff)
      with True show ?thesis by simp
    next
      case False
      with d(2) show ?thesis by auto
    qed
    with d s False show ?thesis by auto
  qed
qed

lemma expand_names_plain: "list_all plain_name ns \<Longrightarrow> expand_names pl cols ns = Inr ns"
  by (induction ns) (simp_all add: expand_name_def plain_name_def)

lemma find_missing_None:
  "set ns \<subseteq> set (columns df) \<Longrightarrow> find (\<lambda>n. n \<notin> set (columns df)) ns = None"
  by (auto simp: find_None_iff)


lemma resolve_names_ok:
  "resolve_names r df ns = Inr out \<Longrightarrow> select_from df [] ns = Inr out"
  by (cases r) (auto split: option.splits)



lemma resolve_names_duplicate:
  assumes "set ns \<subseteq> set (columns df)" and "\<not> distinct ns"
  shows "\<exists>d. 2 \<le> count_list ns d \<and> resolve_names r df ns = Inl (DuplicateError d)"
proof -
  from assms(2) have "\<not> (distinct ns \<and> set ns \<inter> set [] = {})" by simp
  from select_from_duplicate [OF assms(1) this] obtain d where
    "2 \<le> count_list ns d" "select_from df [] ns = Inl (DuplicateError d)" by auto
  with find_missing_None [OF assms(1)] show ?thesis by (cases r) auto
qed

lemma select_plain:
  "list_all plain_name ns \<Longrightarrow> select pl df ns = resolve_names (resolution pl) df ns"
  by (simp add: select_def expand_names_plain)




























section \<open>Properties of the loader\<close>

lemma lacp_resolved:
  assumes "as_path pd = Inr d" and "validate_plates sp = Inr plates"
    and "files_to_load fs d plates = Inr files"
  shows "load_and_concat_profiles pl im fs pd sf sp log =
     (case load_profiles pl im fs sf files log of
        (Inl e, l) \<Rightarrow> (Inl e, l)
      | (Inr loaded, l) \<Rightarrow> (pl_concat loaded, l))"
  using assms by (simp add: load_and_concat_profiles_def)



lemma fst_split: "fst (split_meta_and_features im df) = filter im (columns df)"
  by (simp add: split_meta_and_features_def)

lemma validate_plates_Some:
  assumes "validate_plates (Some plates) = Inr ps"
  shows "\<exists>xs. ps = Some xs"
proof (cases plates)
  case NotAList
  with assms show ?thesis by simp
next
  case (PyList ys)
  with assms show ?thesis by (cases "path_elements ys") auto
qed





lemma count_list_overlap:
  "n \<in> set xs \<Longrightarrow> n \<in> set ys \<Longrightarrow> 2 \<le> count_list (xs @ ys) n"
proof -
  assume "n \<in> set xs" "n \<in> set ys"
  then have "count_list xs n \<noteq> 0" "count_list ys n \<noteq> 0" by (simp_all add: count_list_0_iff)
  then show ?thesis by simp
qed



lemma profile_of_select:
  "read_parquet fs f = Inr df \<Longrightarrow>
   profile_of pl im fs (Some sf) f = select pl df (filter im (columns df) @ sf)"
  by (simp add: profile_of_def load_profile_def split_meta_and_features_def)

lemma profile_of_plain:
  "read_parquet fs f = Inr df \<Longrightarrow> list_all plain_name (filter im (columns df) @ sf) \<Longrightarrow>
   profile_of pl im fs (Some sf) f =
     resolve_names (resolution pl) df (filter im (columns df) @ sf)"
  by (simp only: profile_of_select select_plain)










lemma distinct_count_list: "distinct xs \<Longrightarrow> count_list xs n \<le> 1"
  by (induction xs) (auto simp: count_list_0_iff)

lemma expand_names_count:
  "expand_names pl cols ns = Inr expanded \<Longrightarrow> plain_name n \<Longrightarrow>
   count_list ns n \<le> count_list expanded n"
proof (induction ns arbitrary: expanded)
  case Nil
  then show ?case by simp
next
  case (Cons x ns)
  from Cons.prems(1) obtain xs ys where x: "expand_name pl cols x = Inr xs"
    and y: "expand_names pl cols ns = Inr ys" and e: "expanded = xs @ ys"
    by (auto split: sum.splits)
  from Cons.IH [OF y Cons.prems(2)] have "count_list ns n \<le> count_list ys n" .
  moreover have "x = n \<Longrightarrow> xs = [n]"
    using x Cons.prems(2) by (simp add: expand_name_def plain_name_def)
  ultimately show ?case using e by auto
qed

lemma profile_of_overlap_fails:
  assumes "read_parquet fs file = Inr df"
    and "n \<in> set sf" and "n \<in> set (fst (split_meta_and_features is_meta df))"
    and "plain_name n"
  shows "\<exists>e. profile_of pl is_meta fs (Some sf) file = Inl e"
proof (cases "profile_of pl is_meta fs (Some sf) file")
  case (Inl e)
  then show ?thesis by blast
next
  case (Inr t)
  let ?names = "filter is_meta (columns df) @ sf"
  from Inr have "select pl df ?names = Inr t" by (simp only: profile_of_select [OF assms(1)])
  then obtain expanded where e: "expand_names pl (columns df) ?names = Inr expanded"
    and r: "resolve_names (resolution pl) df expanded = Inr t"
    by (auto simp: select_def split: sum.splits)
  from select_from_ok [OF resolve_names_ok [OF r]] have "distinct expanded" by simp
  then have "count_list expanded n \<le> 1" by (rule distinct_count_list)
  moreover from assms(2,3) have "2 \<le> count_list ?names n"
    by (simp only: fst_split count_list_overlap)
  moreover note expand_names_count [OF e assms(4)]
  ultimately show ?thesis by simp
qed

lemma profile_of_duplicate:
  assumes "read_parquet fs file = Inr df"
    and "n \<in> set sf" and "n \<in> set (fst (split_meta_and_features is_meta df))"
    and "set sf \<subseteq> set (columns df)"
    and "list_all plain_name (fst (split_meta_and_features is_meta df) @ sf)"
  shows "\<exists>c. 2 \<le> count_list (fst (split_meta_and_features is_meta df) @ sf) c \<and>
           profile_of pl is_meta fs (Some sf) file = Inl (DuplicateError c)"
proof -
  let ?names = "filter is_meta (columns df) @ sf"
  from assms(5) have p: "list_all plain_name ?names" by (simp add: fst_split)
  from assms(2,3) have nd: "\<not> distinct ?names" by (auto simp: fst_split)
  from assms(4) have sub: "set ?names \<subseteq> set (columns df)" by auto
  from resolve_names_duplicate [OF sub nd] obtain c where
    "2 \<le> count_list ?names c" "resolve_names (resolution pl) df ?names = Inl (DuplicateError c)"
    by blast
  then show ?thesis by (auto simp: fst_split profile_of_plain [OF assms(1) p])
qed


section \<open>The specified properties\<close>




text \<open>
  C2. With an explicit list of plate paths of which at least one does not exist, the call
  ends with \<^verbatim>\<open>FileNotFoundError\<close> whose text carries the first missing path, and
  the record of reads is unchanged: no file was handed to \<^verbatim>\<open>pl.read_parquet\<close>.
\<close>

theorem missing_plate_fails_before_loading:
  assumes "as_path profile_dir = Inr d"
    and "path_elements xs = Some plates"
    and "p \<in> set plates" and "\<not> exists fs p"
  shows "\<exists>pre q post. plates = pre @ q # post \<and> (\<forall>x \<in> set pre. exists fs x) \<and> \<not> exists fs q \<and>
           load_and_concat_profiles pl is_meta fs profile_dir shared_features (Some (PyList xs)) log =
             (Inl (FileNotFoundError (''Profile file not found: '' @ q)), log)"
proof -
  from assms(3,4) have "\<exists>p \<in> set plates. \<not> exists fs p" by blast
  from check_exists_Some [OF this] obtain pre q post where
    h: "plates = pre @ q # post" "\<forall>x \<in> set pre. exists fs x" "\<not> exists fs q"
       "check_exists fs plates = Some (FileNotFoundError (''Profile file not found: '' @ q))"
    by blast
  from h(4) assms(1,2)
  have "load_and_concat_profiles pl is_meta fs profile_dir shared_features (Some (PyList xs)) log =
             (Inl (FileNotFoundError (''Profile file not found: '' @ q)), log)"
    by (simp add: load_and_concat_profiles_def files_to_load_def)
  with h(1,2,3) show ?thesis by blast
qed

theorem missing_plate_fails_before_loading_witness:
  "load_and_concat_profiles example_pl is_metadata_name example_fs (PyPath ''data'') (Some [''Feature_1''])
     (Some (PyList [PyPath ''data/P1.parquet'', PyPath ''data/P9.parquet'', PyPath ''data/P2.parquet''])) []
   = (Inl (FileNotFoundError ''Profile file not found: data/P9.parquet''), [])"
proof -
  have a: "as_path (PyPath ''data'') = Inr ''data''" by simp
  have b: "path_elements [PyPath ''data/P1.parquet'', PyPath ''data/P9.parquet'', PyPath ''data/P2.parquet'']
             = Some [''data/P1.parquet'', ''data/P9.parquet'', ''data/P2.parquet'']" by simp
  have c: "''data/P9.parquet'' \<in> set [''data/P1.parquet'', ''data/P9.parquet'', ''data/P2.parquet'']" by simp
  have d: "\<not> exists example_fs ''data/P9.parquet''" by (simp add: exists_def example_fs_def)
  from missing_plate_fails_before_loading [OF a b c d, of example_pl is_metadata_name "Some [''Feature_1'']" "[]"]
  obtain pre q post where
    h: "[''data/P1.parquet'', ''data/P9.parquet'', ''data/P2.parquet''] = pre @ q # post"
       "\<forall>x \<in> set pre. exists example_fs x" "\<not> exists example_fs q"
    and r: "load_and_concat_profiles example_pl is_metadata_name example_fs (PyPath ''data'') (Some [''Feature_1''])
     (Some (PyList [PyPath ''data/P1.parquet'', PyPath ''data/P9.parquet'', PyPath ''data/P2.parquet''])) []
      = (Inl (FileNotFoundError (''Profile file not found: '' @ q)), [])"
    by blast
  from h(1) have "q \<in> set [''data/P1.parquet'', ''data/P9.parquet'', ''data/P2.parquet'']"
    by (metis in_set_conv_decomp)
  then have "q = ''data/P1.parquet'' \<or> q = ''data/P9.parquet'' \<or> q = ''data/P2.parquet''" by simp
  moreover have "exists example_fs ''data/P1.parquet''" "exists example_fs ''data/P2.parquet''"
    by (simp_all add: exists_def example_fs_def)
  ultimately have "q = ''data/P9.parquet''" using h(3) by blast
  with r show ?thesis by simp
qed









text \<open>
  C6. With no explicit list, a discovery that finds nothing ends the call with
  \<^verbatim>\<open>FileNotFoundError\<close> whose text carries the directory; a path that does not
  exist and an empty directory are two such cases.
\<close>

theorem empty_discovery_fails:
  assumes "as_path profile_dir = Inr d"
  shows "(glob_parquet fs d = [] \<longrightarrow>
            load_and_concat_profiles pl is_meta fs profile_dir shared_features None log =
              (Inl (FileNotFoundError (''No profile files found in '' @ d)), log)) \<and>
         (\<not> exists fs d \<longrightarrow> glob_parquet fs d = []) \<and>
         (fs d = Some (Dir []) \<longrightarrow> glob_parquet fs d = [])"
  using assms
  by (simp add: load_and_concat_profiles_def files_to_load_def glob_parquet_def exists_def)

theorem empty_discovery_fails_witness:
  "load_and_concat_profiles example_pl is_metadata_name example_fs (PyStr ''empty'') None None [] =
     (Inl (FileNotFoundError ''No profile files found in empty''), []) \<and>
   load_and_concat_profiles example_pl is_metadata_name example_fs (PyStr ''nowhere'') None None [] =
     (Inl (FileNotFoundError ''No profile files found in nowhere''), [])"
proof -
  have a: "as_path (PyStr ''empty'') = Inr ''empty''" and b: "as_path (PyStr ''nowhere'') = Inr ''nowhere''"
    by simp_all
  have e: "example_fs ''empty'' = Some (Dir [])" by (simp add: example_fs_def)
  have n: "\<not> exists example_fs ''nowhere''" by (simp add: exists_def example_fs_def)
  note A = empty_discovery_fails [OF a, of example_fs example_pl is_metadata_name None "[]"]
  note B = empty_discovery_fails [OF b, of example_fs example_pl is_metadata_name None "[]"]
  from A e have "glob_parquet example_fs ''empty'' = []" by blast
  with A have 1: "load_and_concat_profiles example_pl is_metadata_name example_fs (PyStr ''empty'') None None [] =
     (Inl (FileNotFoundError (''No profile files found in '' @ ''empty'')), [])" by blast
  from B n have "glob_parquet example_fs ''nowhere'' = []" by blast
  with B have 2: "load_and_concat_profiles example_pl is_metadata_name example_fs (PyStr ''nowhere'') None None [] =
     (Inl (FileNotFoundError (''No profile files found in '' @ ''nowhere'')), [])" by blast
  from 1 2 show ?thesis by simp
qed



text \<open>
  C8. An empty explicit list is not \<^verbatim>\<open>None\<close>: the directory is not searched,
  nothing is read, and the call ends in \<^verbatim>\<open>pl.concat\<close> of no tables with
  \<^verbatim>\<open>ValueError\<close>, whatever the directory holds.
\<close>

theorem empty_plate_list_fails_in_concat:
  assumes "as_path profile_dir = Inr d"
  shows "load_and_concat_profiles pl is_meta fs profile_dir shared_features (Some (PyList [])) log =
           (Inl (ValueError ''cannot concat empty list''), log)"
  using assms by (simp add: load_and_concat_profiles_def files_to_load_def pl_concat_def)

theorem empty_plate_list_fails_in_concat_witness:
  "glob_parquet example_fs ''empty'' = [] \<and>
   load_and_concat_profiles example_pl is_metadata_name example_fs (PyStr ''empty'') None (Some (PyList [])) [] =
     (Inl (ValueError ''cannot concat empty list''), []) \<and>
   glob_parquet example_fs ''data'' = [''data/P1.parquet'', ''data/P2.parquet''] \<and>
   load_and_concat_profiles example_pl is_metadata_name example_fs (PyStr ''data'') None (Some (PyList [])) [] =
     (Inl (ValueError ''cannot concat empty list''), [])"
proof -
  have a: "as_path (PyStr ''empty'') = Inr ''empty''" and b: "as_path (PyStr ''data'') = Inr ''data''"
    by simp_all
  have g: "glob_parquet example_fs ''empty'' = []"
    by (simp add: glob_parquet_def example_fs_def)
  have g2: "glob_parquet example_fs ''data'' = [''data/P1.parquet'', ''data/P2.parquet'']"
    by (simp add: glob_parquet_def example_fs_def endswith_def joinpath_def)
  from g g2 empty_plate_list_fails_in_concat [OF a, of example_pl is_metadata_name example_fs None "[]"]
    empty_plate_list_fails_in_concat [OF b, of example_pl is_metadata_name example_fs None "[]"]
  show ?thesis by simp
qed

text \<open>
  C9. With an explicit list, two values of \<^verbatim>\<open>profile_dir\<close> that pass the type
  check give the same outcome, existing directory or not.
\<close>

theorem profile_dir_unused_with_explicit_plates:
  assumes "as_path dir1 = Inr d1" and "as_path dir2 = Inr d2"
  shows "load_and_concat_profiles pl is_meta fs dir1 shared_features (Some plates) log =
         load_and_concat_profiles pl is_meta fs dir2 shared_features (Some plates) log"
proof (cases "validate_plates (Some plates)")
  case (Inl e)
  with assms show ?thesis by (simp add: load_and_concat_profiles_def)
next
  case (Inr ps)
  from validate_plates_Some [OF this] obtain xs where "ps = Some xs" ..
  with Inr assms show ?thesis
    by (simp add: load_and_concat_profiles_def files_to_load_def)
qed

theorem profile_dir_unused_with_explicit_plates_witness:
  "\<not> exists example_fs ''nowhere'' \<and> exists example_fs ''data'' \<and>
   load_and_concat_profiles example_pl is_metadata_name example_fs (PyStr ''nowhere'') (Some [''Feature_1''])
     (Some (PyList [PyPath ''data/P1.parquet''])) [] =
   load_and_concat_profiles example_pl is_metadata_name example_fs (PyPath ''data'') (Some [''Feature_1''])
     (Some (PyList [PyPath ''data/P1.parquet''])) []"
proof -
  have a: "as_path (PyStr ''nowhere'') = Inr ''nowhere''" and b: "as_path (PyPath ''data'') = Inr ''data''"
    by simp_all
  have "\<not> exists example_fs ''nowhere''" "exists example_fs ''data''"
    by (simp_all add: exists_def example_fs_def)
  with profile_dir_unused_with_explicit_plates [OF a b, of example_pl is_metadata_name example_fs
       "Some [''Feature_1'']" "PyList [PyPath ''data/P1.parquet'']" "[]"]
  show ?thesis by simp
qed

text \<open>
  C10, as stated: a shared feature name that is also a metadata column of a loaded table
  ends the call with a duplicate-column error for that file. In turn:
  \<^item> a shared feature the table lacks, given before the repeated name, ends the call with
    \<^verbatim>\<open>ColumnNotFoundError\<close>;
  \<^item> so does one given after it when all names are looked up before any is checked for
    repetition;
  \<^item> when an earlier file cannot be read, the call ends there;
  \<^item> a repeated name of the form \<^verbatim>\<open>^...$\<close> is a pattern, here without a match:
    nothing is raised and a table is returned.
\<close>

theorem duplicate_error_not_always_raised:
  "''Metadata_Well'' \<in> set (fst (split_meta_and_features is_metadata_name P1)) \<and>
   load_and_concat_profiles example_pl is_metadata_name example_fs (PyStr ''data'')
     (Some [''Feature_9'', ''Metadata_Well''])
     (Some (PyList [PyPath ''data/P1.parquet''])) [] =
     (Inl (ColumnNotFoundError ''Feature_9''), [''data/P1.parquet'']) \<and>
   load_and_concat_profiles older_pl is_metadata_name example_fs (PyStr ''data'')
     (Some [''Metadata_Well'', ''Feature_9''])
     (Some (PyList [PyPath ''data/P1.parquet''])) [] =
     (Inl (ColumnNotFoundError ''Feature_9''), [''data/P1.parquet'']) \<and>
   load_and_concat_profiles example_pl is_metadata_name example_fs (PyStr ''data'')
     (Some [''Metadata_Well''])
     (Some (PyList [PyPath ''data/notes.txt'', PyPath ''data/P1.parquet''])) [] =
     (Inl (ComputeError ''data/notes.txt''), [''data/notes.txt'']) \<and>
   ''^zz$'' \<in> set (fst (split_meta_and_features is_not_feature_name P5)) \<and>
   load_and_concat_profiles example_pl is_not_feature_name example_fs (PyStr ''data'')
     (Some [''^zz$''])
     (Some (PyList [PyPath ''other/P5.parquet''])) [] =
     (Inr [], [''other/P5.parquet''])"
  by code_simp

text \<open>
  C10, amended: when a shared feature name is also a metadata column of the table read
  from a file to load, the projection list holds that name twice; if the name is a plain
  column name the call returns no table; and when the files before it load, the table has
  every shared feature and the names handed to \<^verbatim>\<open>df.select\<close> are plain column
  names, the call ends at that file with \<^verbatim>\<open>DuplicateError\<close> for a name selected
  twice, under either order of resolution.
\<close>

theorem metadata_name_in_shared_features_fails:
  assumes "as_path profile_dir = Inr d"
    and "validate_plates specific_plates = Inr plates"
    and "files_to_load fs d plates = Inr (pre @ file # post)"
    and "read_parquet fs file = Inr df"
    and "n \<in> set sf" and "n \<in> set (fst (split_meta_and_features is_meta df))"
  shows "2 \<le> count_list (fst (split_meta_and_features is_meta df) @ sf) n \<and>
         (plain_name n \<longrightarrow>
            (\<exists>e. fst (load_and_concat_profiles pl is_meta fs profile_dir (Some sf) specific_plates log) =
                   Inl e)) \<and>
         (fst (load_profiles pl is_meta fs (Some sf) pre log) = Inr loaded \<and>
          set sf \<subseteq> set (columns df) \<and>
          list_all plain_name (fst (split_meta_and_features is_meta df) @ sf) \<longrightarrow>
            (\<exists>c. 2 \<le> count_list (fst (split_meta_and_features is_meta df) @ sf) c \<and>
                 load_and_concat_profiles pl is_meta fs profile_dir (Some sf) specific_plates log =
                   (Inl (DuplicateError c), log @ pre @ [file])))"
proof (intro conjI impI)
  from count_list_overlap [OF assms(6) assms(5)]
  show "2 \<le> count_list (fst (split_meta_and_features is_meta df) @ sf) n" .
next
  assume pn: "plain_name n"
  from profile_of_overlap_fails [OF assms(4,5,6) pn] obtain e where
    e: "profile_of pl is_meta fs (Some sf) file = Inl e" ..
  have "file \<in> set (pre @ file # post)" by simp
  from load_profiles_some_failure [OF this e] obtain e' where
    "fst (load_profiles pl is_meta fs (Some sf) (pre @ file # post) log) = Inl e'" ..
  then have "fst (load_and_concat_profiles pl is_meta fs profile_dir (Some sf) specific_plates log) = Inl e'"
    by (cases "load_profiles pl is_meta fs (Some sf) (pre @ file # post) log")
       (simp add: lacp_resolved [OF assms(1,2,3)])
  then show "\<exists>e. fst (load_and_concat_profiles pl is_meta fs profile_dir (Some sf) specific_plates log) = Inl e" ..
next
  assume a: "fst (load_profiles pl is_meta fs (Some sf) pre log) = Inr loaded \<and>
          set sf \<subseteq> set (columns df) \<and>
          list_all plain_name (fst (split_meta_and_features is_meta df) @ sf)"
  then have ok: "fst (load_profiles pl is_meta fs (Some sf) pre log) = Inr loaded"
    and sub: "set sf \<subseteq> set (columns df)"
    and pn: "list_all plain_name (fst (split_meta_and_features is_meta df) @ sf)"
    by simp_all
  from profile_of_duplicate [OF assms(4,5,6) sub pn] obtain c where
    c: "2 \<le> count_list (fst (split_meta_and_features is_meta df) @ sf) c"
       "profile_of pl is_meta fs (Some sf) file = Inl (DuplicateError c)"
    by blast
  from load_profiles_first_failure [OF ok c(2)]
  have "load_and_concat_profiles pl is_meta fs profile_dir (Some sf) specific_plates log =
                   (Inl (DuplicateError c), log @ pre @ [file])"
    by (simp add: lacp_resolved [OF assms(1,2,3)])
  with c(1) show "\<exists>c. 2 \<le> count_list (fst (split_meta_and_features is_meta df) @ sf) c \<and>
                 load_and_concat_profiles pl is_meta fs profile_dir (Some sf) specific_plates log =
                   (Inl (DuplicateError c), log @ pre @ [file])"
    by blast
qed

theorem metadata_name_in_shared_features_fails_witness:
  "2 \<le> count_list (fst (split_meta_and_features is_metadata_name P2) @ [''Feature_1'', ''Metadata_Well''])
          ''Metadata_Well'' \<and>
   (\<exists>c. 2 \<le> count_list (fst (split_meta_and_features is_metadata_name P2) @
                          [''Feature_1'', ''Metadata_Well'']) c \<and>
        load_and_concat_profiles example_pl is_metadata_name example_fs (PyStr ''data'')
          (Some [''Feature_1'', ''Metadata_Well''])
          (Some (PyList [PyPath ''data/P2.parquet'', PyPath ''data/P1.parquet''])) [] =
        (Inl (DuplicateError c), [''data/P2.parquet'']))"
proof -
  have a: "as_path (PyStr ''data'') = Inr ''data''" by simp
  have b: "validate_plates (Some (PyList [PyPath ''data/P2.parquet'', PyPath ''data/P1.parquet''])) =
             Inr (Some [''data/P2.parquet'', ''data/P1.parquet''])" by simp
  have c: "files_to_load example_fs ''data'' (Some [''data/P2.parquet'', ''data/P1.parquet'']) =
             Inr ([] @ ''data/P2.parquet'' # [''data/P1.parquet''])"
    by (simp add: files_to_load_def exists_def example_fs_def)
  have r: "read_parquet example_fs ''data/P2.parquet'' = Inr P2"
    by (simp add: read_parquet_def example_fs_def)
  have n: "''Metadata_Well'' \<in> set [''Feature_1'', ''Metadata_Well'']" by simp
  have mm: "fst (split_meta_and_features is_metadata_name P2) = [''Metadata_Plate'', ''Metadata_Well'']"
    by (simp add: split_meta_and_features_def columns_def P2_def is_metadata_name_def)
  have m: "''Metadata_Well'' \<in> set (fst (split_meta_and_features is_metadata_name P2))"
    unfolding mm by simp
  have l: "fst (load_profiles example_pl is_metadata_name example_fs
                  (Some [''Feature_1'', ''Metadata_Well'']) [] []) = Inr []" by simp
  have s: "set [''Feature_1'', ''Metadata_Well''] \<subseteq> set (columns P2)"
    by (simp add: columns_def P2_def)
  have p: "list_all plain_name (fst (split_meta_and_features is_metadata_name P2) @
             [''Feature_1'', ''Metadata_Well''])"
    unfolding mm by (simp add: plain_name_def is_regex_name_def)
  from metadata_name_in_shared_features_fails [OF a b c r n m, of example_pl "[]" "[]"] l s p
  show ?thesis by simp
qed

end
